theory Spec2Isabelle
  imports Main
begin

section \<open>JavaScript values used by the ERC1155 service\<close>

subsection \<open>Strings\<close>

text \<open>
  Strings are \<^typ>\<open>string\<close>. \<open>String.prototype.toLowerCase\<close> is a primitive of the
  runtime; the lookup below takes it as a parameter \<open>lc\<close>, so that the theorems hold for
  whatever the runtime computes. \<open>toLowerCase\<close> is its restriction to ASCII text (the
  letters A to Z are moved to a to z, every other character is kept), exact on every
  ASCII string, and it is the instance the service is run with.
\<close>

definition toLowerCaseChar :: "char \<Rightarrow> char" where
  "toLowerCaseChar c =
     (case map_of (zip ''ABCDEFGHIJKLMNOPQRSTUVWXYZ'' ''abcdefghijklmnopqrstuvwxyz'') c of
        None \<Rightarrow> c
      | Some l \<Rightarrow> l)"

definition toLowerCase :: "string \<Rightarrow> string" where
  "toLowerCase s = map toLowerCaseChar s"

text \<open>
  \<open>`${n}`\<close> for a number that is a non-negative integer: its decimal digits (the form
  JavaScript prints below \<open>10^21\<close>, which covers every chain identifier).
\<close>

definition digitChar :: "nat \<Rightarrow> char" where
  "digitChar d = ''0123456789'' ! (d mod 10)"

fun numberToString :: "nat \<Rightarrow> string" where
  "numberToString n =
     (if n < 10 then [digitChar n] else numberToString (n div 10) @ [digitChar (n mod 10)])"

declare numberToString.simps [simp del]

subsection \<open>Thrown values\<close>

text \<open>
  A thrown value is an error object with a \<open>name\<close> and a \<open>message\<close>. \<open>Error(msg)\<close>
  builds one named \<open>Error\<close>; the wallet client may throw errors of any name.
  \<open>errorToString\<close> is \<open>Error.prototype.toString\<close>, which is what the template literal
  \<open>`${error}`\<close> of the catch blocks evaluates.
\<close>

datatype js_error = JsError (err_name: string) (err_message: string)

definition Error :: "string \<Rightarrow> js_error" where
  "Error msg = JsError ''Error'' msg"

definition errorToString :: "js_error \<Rightarrow> string" where
  "errorToString e =
     (if err_name e = [] then err_message e
      else if err_message e = [] then err_name e
      else err_name e @ '': '' @ err_message e)"

text \<open>
  The outcome of a call: \<open>Inl e\<close> when it throws (or its promise rejects with) \<open>e\<close>,
  \<open>Inr v\<close> when it returns (or resolves to) \<open>v\<close>.
\<close>

type_synonym 'a outcome = "js_error + 'a"

definition throw :: "js_error \<Rightarrow> 'a outcome" where
  "throw e = Inl e"

text \<open>Sequencing (\<open>await\<close>, or a synchronous call): a failure skips the continuation.\<close>

definition andThen :: "'a outcome \<Rightarrow> ('a \<Rightarrow> 'b outcome) \<Rightarrow> 'b outcome" where
  "andThen r k = (case r of Inl e \<Rightarrow> Inl e | Inr v \<Rightarrow> k v)"

text \<open>\<open>try { body } catch (error) { handler }\<close>.\<close>

definition tryCatch :: "'a outcome \<Rightarrow> (js_error \<Rightarrow> 'a outcome) \<Rightarrow> 'a outcome" where
  "tryCatch body handler = (case body of Inl e \<Rightarrow> handler e | Inr v \<Rightarrow> Inr v)"

text \<open>
  \<open>Promise.all\<close> over a list of promises: the results in the order of the list when all
  resolve. When several reject, JavaScript reports the one that rejects first in time;
  the model reports the first in list order.
\<close>

fun promiseAll :: "'a outcome list \<Rightarrow> 'a list outcome" where
  "promiseAll [] = Inr []"
| "promiseAll (p # ps) =
     (case p of
        Inl e \<Rightarrow> Inl e
      | Inr v \<Rightarrow> (case promiseAll ps of Inl e \<Rightarrow> Inl e | Inr vs \<Rightarrow> Inr (v # vs)))"

subsection \<open>Values read from the contract, and \<open>Number\<close>\<close>

text \<open>
  What a read call of the ERC1155 interface decodes: a boolean, an unsigned integer (a
  \<open>bigint\<close>), or an array of such values.
\<close>

datatype js_value = JBoolean bool | JBigInt nat | JArray "js_value list"

text \<open>
  A JavaScript number, as far as \<open>Number\<close> produces one from these values: a
  non-negative integer that is a double, \<open>Infinity\<close> or \<open>NaN\<close>.
\<close>

datatype js_number = Num nat | Infinity | NaN

fun bitLength :: "nat \<Rightarrow> nat" where
  "bitLength n = (if n = 0 then 0 else Suc (bitLength (n div 2)))"

declare bitLength.simps [simp del]

text \<open>
  \<open>Number(n)\<close> for a \<open>bigint\<close>: the nearest double, ties to the even significand
  (53 bits), \<open>Infinity\<close> from \<open>2^1024\<close> on.
\<close>

definition numberOfBigInt :: "nat \<Rightarrow> js_number" where
  "numberOfBigInt n =
     (if n < 2 ^ 53 then Num n
      else
        let e = bitLength n - 53;
            q = n div 2 ^ e;
            r = n mod 2 ^ e;
            h = 2 ^ (e - 1);
            q' = (if h < r \<or> (r = h \<and> odd q) then q + 1 else q);
            v = q' * 2 ^ e
        in if 2 ^ 1024 \<le> v then Infinity else Num v)"

text \<open>
  \<open>Number(v)\<close>. A boolean is 0 or 1. An array is converted through its string form, the
  elements joined by commas: the empty array gives the empty string, which is 0; an array
  of one element gives that element's string, which is a number only when the element is
  a \<open>bigint\<close> or, again, such an array (\<open>"true"\<close> and \<open>"false"\<close> are not numeric); a
  longer array gives a string with a comma, which is \<open>NaN\<close>.
\<close>

fun Number :: "js_value \<Rightarrow> js_number" where
  "Number (JBoolean b) = Num (if b then 1 else 0)"
| "Number (JBigInt n) = numberOfBigInt n"
| "Number (JArray []) = Num 0"
| "Number (JArray [JBoolean b]) = NaN"
| "Number (JArray [JBigInt n]) = numberOfBigInt n"
| "Number (JArray [JArray vs]) = Number (JArray vs)"
| "Number (JArray (v # w # vs)) = NaN"

text \<open>The arguments the service passes to a contract call.\<close>

datatype js_arg =
    ArgString string
  | ArgNumber int
  | ArgBoolean bool
  | ArgArray "js_arg list"

section \<open>Data model\<close>

text \<open>
  Modelled from the spec: the \<open>Token\<close> type (\<open>./token\<close>) is not among the sources. It
  has the fields the lookup reads: \<open>symbol\<close>, \<open>id\<close>, \<open>decimals\<close>, \<open>name\<close>,
  \<open>uri\<close>, \<open>totalSupply\<close> and \<open>chains\<close>, a table from chain identifier to an entry
  holding the contract address on that chain.
\<close>

record ChainEntry =
  contractAddress :: string

record Token =
  tk_symbol :: string
  tk_id :: int
  tk_decimals :: int
  tk_name :: string
  tk_uri :: string
  tk_totalSupply :: int
  tk_chains :: "nat \<rightharpoonup> ChainEntry"

text \<open>The object \<open>getTokenInfoBySymbol\<close> returns.\<close>

record TokenInfo =
  ti_symbol :: string
  ti_contractAddress :: string
  ti_id :: int
  ti_decimals :: int
  ti_name :: string
  ti_uri :: string
  ti_totalSupply :: int

text \<open>
  Modelled from the spec: the parameter types (\<open>./parameters\<close>) are not among the
  sources. Each record has the fields its operation reads, under the operation's
  initials; identifiers and amounts are numbers, \<open>data\<close> is optional.
\<close>

record GetTokenInfoBySymbolParameters =
  gt_symbol :: string

record BalanceOfParameters =
  bo_tokenAddress :: string
  bo_owner :: string
  bo_id :: int

record BalanceOfBatchParameters =
  bb_tokenAddress :: string
  bb_owners :: "string list"
  bb_ids :: "int list"

record SafeTransferFromParameters =
  st_tokenAddress :: string
  st_from :: string
  st_to :: string
  st_id :: int
  st_value :: int
  st_data :: "string option"

record SafeBatchTransferFromParameters =
  sb_tokenAddress :: string
  sb_from :: string
  sb_to :: string
  sb_ids :: "int list"
  sb_values :: "int list"
  sb_data :: "string option"

record SetApprovalForAllParameters =
  sa_tokenAddress :: string
  sa_operator :: string
  sa_approved :: bool

record IsApprovedForAllParameters =
  ia_tokenAddress :: string
  ia_owner :: string
  ia_operator :: string

subsection \<open>The wallet client\<close>

text \<open>
  Modelled from the spec: the wallet client (\<open>@goat-sdk/wallet-evm\<close>) is not among the
  sources. The spec gives its calls: \<open>getChain() \<rightarrow> {id}\<close>,
  \<open>resolveAddress(identifier) \<rightarrow> address\<close>,
  \<open>read({address, abi, functionName, args}) \<rightarrow> {value}\<close> and
  \<open>sendTransaction({to, abi, functionName, args}) \<rightarrow> {hash}\<close>. It is a parameter of
  every operation: the service sees only what its calls answer, an answer is a function
  of the call's argument, and every call may throw.
  The \<open>abi\<close> field of a request is the constant \<open>ERC1155_ABI\<close> in every call and is
  left out.
\<close>

record Chain =
  chain_id :: nat

record EVMReadRequest =
  rq_address :: string
  rq_functionName :: string
  rq_args :: "js_arg list"

record EVMReadResult =
  rr_value :: js_value

record EVMTransaction =
  tx_to :: string
  tx_functionName :: string
  tx_args :: "js_arg list"

record EVMTransactionResult =
  tr_hash :: string

record EVMWalletClient =
  getChain :: "Chain outcome"
  resolveAddress :: "string \<Rightarrow> string outcome"
  read :: "EVMReadRequest \<Rightarrow> EVMReadResult outcome"
  sendTransaction :: "EVMTransaction \<Rightarrow> EVMTransactionResult outcome"

section \<open>The service\<close>

record Erc1155Service =
  tokens :: "Token list"

text \<open>The constructor: \<open>this.tokens = tokens ?? []\<close>.\<close>

definition newErc1155Service :: "Token list option \<Rightarrow> Erc1155Service" where
  "newErc1155Service ts = \<lparr>tokens = (case ts of None \<Rightarrow> [] | Some l \<Rightarrow> l)\<rparr>"

subsection \<open>getTokenInfoBySymbol\<close>

text \<open>
  The predicate of \<open>find\<close>:
  \<open>[token.symbol, token.symbol.toLowerCase()].includes(parameters.symbol)\<close>.
\<close>

definition symbolMatches :: "(string \<Rightarrow> string) \<Rightarrow> string \<Rightarrow> Token \<Rightarrow> bool" where
  "symbolMatches lc s token \<longleftrightarrow> s \<in> set [tk_symbol token, lc (tk_symbol token)]"

text \<open>The two errors of the lookup, as the source builds them.\<close>

definition tokenNotFound :: "string \<Rightarrow> js_error" where
  "tokenNotFound s = Error (''Token with symbol '' @ s @ '' not found'')"

definition tokenNotFoundOnChain :: "string \<Rightarrow> nat \<Rightarrow> js_error" where
  "tokenNotFoundOnChain s cid =
     Error (''Token with symbol '' @ s @ '' not found on chain '' @ numberToString cid)"

text \<open>
  \<open>token.chains[chain.id]?.contractAddress\<close>: \<open>None\<close> is \<open>undefined\<close>, the value
  when the table has no entry for the chain.
\<close>

definition chainContractAddress :: "Token \<Rightarrow> nat \<Rightarrow> string option" where
  "chainContractAddress token cid = map_option contractAddress (tk_chains token cid)"

text \<open>
  The lookup. The test \<open>!contractAddress\<close> holds for \<open>undefined\<close> and for the empty
  string. \<open>getChain\<close> is called, outside any \<open>try\<close>, only once a token is found.
\<close>

definition getTokenInfoBySymbolWith ::
  "(string \<Rightarrow> string) \<Rightarrow> Erc1155Service \<Rightarrow> EVMWalletClient \<Rightarrow>
   GetTokenInfoBySymbolParameters \<Rightarrow> TokenInfo outcome" where
  "getTokenInfoBySymbolWith lc svc walletClient parameters =
     (case find (symbolMatches lc (gt_symbol parameters)) (tokens svc) of
        None \<Rightarrow> throw (tokenNotFound (gt_symbol parameters))
      | Some token \<Rightarrow>
          andThen (getChain walletClient) (\<lambda>chain.
            case chainContractAddress token (chain_id chain) of
              None \<Rightarrow> throw (tokenNotFoundOnChain (gt_symbol parameters) (chain_id chain))
            | Some address \<Rightarrow>
                if address = []
                then throw (tokenNotFoundOnChain (gt_symbol parameters) (chain_id chain))
                else Inr \<lparr>ti_symbol = tk_symbol token,
                          ti_contractAddress = address,
                          ti_id = tk_id token,
                          ti_decimals = tk_decimals token,
                          ti_name = tk_name token,
                          ti_uri = tk_uri token,
                          ti_totalSupply = tk_totalSupply token\<rparr>))"

definition getTokenInfoBySymbol ::
  "Erc1155Service \<Rightarrow> EVMWalletClient \<Rightarrow> GetTokenInfoBySymbolParameters \<Rightarrow>
   TokenInfo outcome" where
  "getTokenInfoBySymbol = getTokenInfoBySymbolWith toLowerCase"

subsection \<open>The operations that call the contract\<close>

text \<open>The catch block of each operation: \<open>throw Error(`<prefix>${error}`)\<close>.\<close>

definition rethrow :: "string \<Rightarrow> js_error \<Rightarrow> 'a outcome" where
  "rethrow prefix error = throw (Error (prefix @ errorToString error))"

definition balanceOf ::
  "EVMWalletClient \<Rightarrow> BalanceOfParameters \<Rightarrow> js_number outcome" where
  "balanceOf walletClient parameters =
     tryCatch
       (andThen (resolveAddress walletClient (bo_owner parameters)) (\<lambda>resolvedWalletAddress.
        andThen (read walletClient
                   \<lparr>rq_address = bo_tokenAddress parameters,
                    rq_functionName = ''balanceOf'',
                    rq_args = [ArgString resolvedWalletAddress, ArgNumber (bo_id parameters)]\<rparr>)
          (\<lambda>rawBalance. Inr (Number (rr_value rawBalance)))))
       (rethrow ''Failed to fetch balance: '')"

text \<open>
  \<open>(rawBalances.value as any[]).map(...)\<close>: when the value is not an array it has no
  \<open>map\<close> method and the call throws a \<open>TypeError\<close> (the message is the engine's).
\<close>

definition mapNumber :: "js_value \<Rightarrow> js_number list outcome" where
  "mapNumber v =
     (case v of
        JArray balances \<Rightarrow> Inr (map Number balances)
      | _ \<Rightarrow> throw (JsError ''TypeError'' ''rawBalances.value.map is not a function''))"

definition balanceOfBatch ::
  "EVMWalletClient \<Rightarrow> BalanceOfBatchParameters \<Rightarrow> js_number list outcome" where
  "balanceOfBatch walletClient parameters =
     tryCatch
       (andThen (promiseAll (map (resolveAddress walletClient) (bb_owners parameters)))
          (\<lambda>resolvedOwners.
        andThen (read walletClient
                   \<lparr>rq_address = bb_tokenAddress parameters,
                    rq_functionName = ''balanceOfBatch'',
                    rq_args = [ArgArray (map ArgString resolvedOwners),
                               ArgArray (map ArgNumber (bb_ids parameters))]\<rparr>)
          (\<lambda>rawBalances. mapNumber (rr_value rawBalances))))
       (rethrow ''Failed to fetch batch balances: '')"

text \<open>\<open>parameters.data ?? "0x"\<close>.\<close>

definition dataOrDefault :: "string option \<Rightarrow> string" where
  "dataOrDefault d = (case d of None \<Rightarrow> ''0x'' | Some s \<Rightarrow> s)"

definition safeTransferFrom ::
  "EVMWalletClient \<Rightarrow> SafeTransferFromParameters \<Rightarrow> string outcome" where
  "safeTransferFrom walletClient parameters =
     tryCatch
       (andThen (resolveAddress walletClient (st_from parameters)) (\<lambda>from.
        andThen (resolveAddress walletClient (st_to parameters)) (\<lambda>to.
        andThen (sendTransaction walletClient
                   \<lparr>tx_to = st_tokenAddress parameters,
                    tx_functionName = ''safeTransferFrom'',
                    tx_args = [ArgString from, ArgString to, ArgNumber (st_id parameters),
                               ArgNumber (st_value parameters),
                               ArgString (dataOrDefault (st_data parameters))]\<rparr>)
          (\<lambda>hash. Inr (tr_hash hash)))))
       (rethrow ''Failed to transfer: '')"

definition safeBatchTransferFrom ::
  "EVMWalletClient \<Rightarrow> SafeBatchTransferFromParameters \<Rightarrow> string outcome" where
  "safeBatchTransferFrom walletClient parameters =
     tryCatch
       (andThen (resolveAddress walletClient (sb_from parameters)) (\<lambda>from.
        andThen (resolveAddress walletClient (sb_to parameters)) (\<lambda>to.
        andThen (sendTransaction walletClient
                   \<lparr>tx_to = sb_tokenAddress parameters,
                    tx_functionName = ''safeBatchTransferFrom'',
                    tx_args = [ArgString from, ArgString to,
                               ArgArray (map ArgNumber (sb_ids parameters)),
                               ArgArray (map ArgNumber (sb_values parameters)),
                               ArgString (dataOrDefault (sb_data parameters))]\<rparr>)
          (\<lambda>hash. Inr (tr_hash hash)))))
       (rethrow ''Failed to batch transfer: '')"

definition setApprovalForAll ::
  "EVMWalletClient \<Rightarrow> SetApprovalForAllParameters \<Rightarrow> string outcome" where
  "setApprovalForAll walletClient parameters =
     tryCatch
       (andThen (resolveAddress walletClient (sa_operator parameters)) (\<lambda>operator.
        andThen (sendTransaction walletClient
                   \<lparr>tx_to = sa_tokenAddress parameters,
                    tx_functionName = ''setApprovalForAll'',
                    tx_args = [ArgString operator, ArgBoolean (sa_approved parameters)]\<rparr>)
          (\<lambda>hash. Inr (tr_hash hash))))
       (rethrow ''Failed to set approval: '')"

text \<open>\<open>isApprovedForAll\<close> returns \<open>approved\<close>, the object the read call resolved to.\<close>

definition isApprovedForAll ::
  "EVMWalletClient \<Rightarrow> IsApprovedForAllParameters \<Rightarrow> EVMReadResult outcome" where
  "isApprovedForAll walletClient parameters =
     tryCatch
       (andThen (resolveAddress walletClient (ia_owner parameters)) (\<lambda>owner.
        andThen (resolveAddress walletClient (ia_operator parameters)) (\<lambda>operator.
        andThen (read walletClient
                   \<lparr>rq_address = ia_tokenAddress parameters,
                    rq_functionName = ''isApprovedForAll'',
                    rq_args = [ArgString owner, ArgString operator]\<rparr>)
          (\<lambda>approved. Inr approved))))
       (rethrow ''Failed to fetch balance: '')"

subsection \<open>The service object and its array in the heap\<close>

text \<open>
  Objects and arrays are held by reference. The heap has, for every service object, the
  reference stored in its private field \<open>tokens\<close>, and for every array of descriptors
  its elements. The constructor stores the reference it is given (\<open>this.tokens = tokens\<close>
  copies nothing), so the array of the service is the caller's array; without an argument
  it stores a new empty array.
\<close>

type_synonym ref = nat

record Heap =
  nextRef :: ref
  tokensField :: "ref \<rightharpoonup> ref"
  arrays :: "ref \<rightharpoonup> Token list"

type_synonym 'a heapOp = "Heap \<Rightarrow> 'a \<times> Heap"

definition returnOp :: "'a \<Rightarrow> 'a heapOp" where
  "returnOp v h = (v, h)"

definition bindOp :: "'a heapOp \<Rightarrow> ('a \<Rightarrow> 'b heapOp) \<Rightarrow> 'b heapOp" where
  "bindOp m k h = (case m h of (v, h') \<Rightarrow> k v h')"

text \<open>A new object, and a new array with the given elements.\<close>

definition allocObject :: "ref heapOp" where
  "allocObject h = (nextRef h, h\<lparr>nextRef := Suc (nextRef h)\<rparr>)"

definition allocArray :: "Token list \<Rightarrow> ref heapOp" where
  "allocArray ts h =
     (nextRef h, h\<lparr>nextRef := Suc (nextRef h), arrays := (arrays h)(nextRef h \<mapsto> ts)\<rparr>)"

text \<open>The assignment \<open>this.tokens = r\<close>.\<close>

definition assignTokensField :: "ref \<Rightarrow> ref \<Rightarrow> unit heapOp" where
  "assignTokensField this r h = ((), h\<lparr>tokensField := (tokensField h)(this \<mapsto> r)\<rparr>)"

text \<open>\<open>array.push(t)\<close>: the array changes in place, for everyone who holds its reference.\<close>

definition pushToken :: "ref \<Rightarrow> Token \<Rightarrow> unit heapOp" where
  "pushToken r t h =
     ((), h\<lparr>arrays := (arrays h)(r \<mapsto> (case arrays h r of None \<Rightarrow> [] | Some ts \<Rightarrow> ts) @ [t])\<rparr>)"

text \<open>The list of descriptors a service object holds: the elements of the array its field refers to.\<close>

definition heldTokens :: "Heap \<Rightarrow> ref \<Rightarrow> Token list" where
  "heldTokens h this =
     (case tokensField h this of
        None \<Rightarrow> []
      | Some r \<Rightarrow> (case arrays h r of None \<Rightarrow> [] | Some ts \<Rightarrow> ts))"

text \<open>Evaluating \<open>this.tokens\<close>: a read.\<close>

definition readTokensField :: "ref \<Rightarrow> Token list heapOp" where
  "readTokensField this h = (heldTokens h this, h)"

text \<open>\<open>new Erc1155Service({ tokens })\<close>: \<open>this.tokens = tokens ?? []\<close>.\<close>

definition constructorOp :: "ref option \<Rightarrow> ref heapOp" where
  "constructorOp tokensArg =
     bindOp allocObject (\<lambda>this.
     bindOp (case tokensArg of None \<Rightarrow> allocArray [] | Some r \<Rightarrow> returnOp r) (\<lambda>r.
     bindOp (assignTokensField this r) (\<lambda>_.
     returnOp this)))"

text \<open>
  The seven methods, called on the service object \<open>this\<close>. \<open>getTokenInfoBySymbol\<close>
  reads \<open>this.tokens\<close> and scans it; the other six never mention \<open>this\<close>. What the
  wallet client answers does not depend on this heap.
\<close>

definition getTokenInfoBySymbolOp ::
  "ref \<Rightarrow> EVMWalletClient \<Rightarrow> GetTokenInfoBySymbolParameters \<Rightarrow> TokenInfo outcome heapOp" where
  "getTokenInfoBySymbolOp this walletClient parameters =
     bindOp (readTokensField this) (\<lambda>ts.
     returnOp (getTokenInfoBySymbol \<lparr>tokens = ts\<rparr> walletClient parameters))"

definition balanceOfOp ::
  "ref \<Rightarrow> EVMWalletClient \<Rightarrow> BalanceOfParameters \<Rightarrow> js_number outcome heapOp" where
  "balanceOfOp this walletClient parameters = returnOp (balanceOf walletClient parameters)"

definition balanceOfBatchOp ::
  "ref \<Rightarrow> EVMWalletClient \<Rightarrow> BalanceOfBatchParameters \<Rightarrow> js_number list outcome heapOp" where
  "balanceOfBatchOp this walletClient parameters =
     returnOp (balanceOfBatch walletClient parameters)"

definition safeTransferFromOp ::
  "ref \<Rightarrow> EVMWalletClient \<Rightarrow> SafeTransferFromParameters \<Rightarrow> string outcome heapOp" where
  "safeTransferFromOp this walletClient parameters =
     returnOp (safeTransferFrom walletClient parameters)"

definition safeBatchTransferFromOp ::
  "ref \<Rightarrow> EVMWalletClient \<Rightarrow> SafeBatchTransferFromParameters \<Rightarrow> string outcome heapOp" where
  "safeBatchTransferFromOp this walletClient parameters =
     returnOp (safeBatchTransferFrom walletClient parameters)"

definition setApprovalForAllOp ::
  "ref \<Rightarrow> EVMWalletClient \<Rightarrow> SetApprovalForAllParameters \<Rightarrow> string outcome heapOp" where
  "setApprovalForAllOp this walletClient parameters =
     returnOp (setApprovalForAll walletClient parameters)"

definition isApprovedForAllOp ::
  "ref \<Rightarrow> EVMWalletClient \<Rightarrow> IsApprovedForAllParameters \<Rightarrow> EVMReadResult outcome heapOp" where
  "isApprovedForAllOp this walletClient parameters =
     returnOp (isApprovedForAll walletClient parameters)"

text \<open>
  \<open>afterCalls this h h'\<close>: the heap \<open>h'\<close> is what is left of \<open>h\<close> after some sequence of
  method calls on \<open>this\<close>, in any order, with any wallet clients and parameters, each
  succeeding or failing.
\<close>

inductive afterCalls :: "ref \<Rightarrow> Heap \<Rightarrow> Heap \<Rightarrow> bool" for this :: ref and h :: Heap where
  no_call: "afterCalls this h h"
| call_getTokenInfoBySymbol:
    "afterCalls this h h' \<Longrightarrow> afterCalls this h (snd (getTokenInfoBySymbolOp this wc p h'))"
| call_balanceOf:
    "afterCalls this h h' \<Longrightarrow> afterCalls this h (snd (balanceOfOp this wc p h'))"
| call_balanceOfBatch:
    "afterCalls this h h' \<Longrightarrow> afterCalls this h (snd (balanceOfBatchOp this wc p h'))"
| call_safeTransferFrom:
    "afterCalls this h h' \<Longrightarrow> afterCalls this h (snd (safeTransferFromOp this wc p h'))"
| call_safeBatchTransferFrom:
    "afterCalls this h h' \<Longrightarrow> afterCalls this h (snd (safeBatchTransferFromOp this wc p h'))"
| call_setApprovalForAll:
    "afterCalls this h h' \<Longrightarrow> afterCalls this h (snd (setApprovalForAllOp this wc p h'))"
| call_isApprovedForAll:
    "afterCalls this h h' \<Longrightarrow> afterCalls this h (snd (isApprovedForAllOp this wc p h'))"

section \<open>Scenarios\<close>

text \<open>The registry and the wallet clients of the scenarios the theorems are run on.\<close>

definition goldToken :: Token where
  "goldToken =
     \<lparr>tk_symbol = ''GOLD'', tk_id = 1, tk_decimals = 0, tk_name = ''Gold'',
      tk_uri = ''ipfs://gold'', tk_totalSupply = 1000,
      tk_chains = [1 \<mapsto> \<lparr>contractAddress = ''0xAAA''\<rparr>]\<rparr>"

definition lowerGoldToken :: Token where
  "lowerGoldToken =
     \<lparr>tk_symbol = ''gold'', tk_id = 2, tk_decimals = 18, tk_name = ''Lower gold'',
      tk_uri = ''ipfs://lower'', tk_totalSupply = 7,
      tk_chains = [1 \<mapsto> \<lparr>contractAddress = ''0xBBB''\<rparr>]\<rparr>"

definition otherGoldToken :: Token where
  "otherGoldToken =
     \<lparr>tk_symbol = ''GOLD'', tk_id = 3, tk_decimals = 6, tk_name = ''Other gold'',
      tk_uri = ''ipfs://other'', tk_totalSupply = 50,
      tk_chains = [1 \<mapsto> \<lparr>contractAddress = ''0xCCC''\<rparr>]\<rparr>"



definition rpcError :: js_error where
  "rpcError = JsError ''RpcError'' ''connection refused''"

text \<open>A wallet client on chain 1 whose calls all succeed.\<close>

definition chainOneWallet :: EVMWalletClient where
  "chainOneWallet =
     \<lparr>getChain = Inr \<lparr>chain_id = 1\<rparr>,
      resolveAddress = (\<lambda>a. Inr (if a = ''alice.eth'' then ''0xBBB'' else a)),
      read = (\<lambda>rq. Inr \<lparr>rr_value =
                (if rq_functionName rq = ''isApprovedForAll'' then JBoolean True
                 else if rq_functionName rq = ''balanceOfBatch''
                   then JArray [JBigInt 5, JBigInt 7]
                 else JBigInt 5)\<rparr>),
      sendTransaction = (\<lambda>tx. Inr \<lparr>tr_hash = ''0xHASH''\<rparr>)\<rparr>"


text \<open>Wallet clients with one failing call.\<close>

definition failingSendWallet :: EVMWalletClient where
  "failingSendWallet = chainOneWallet\<lparr>sendTransaction := (\<lambda>tx. Inl rpcError)\<rparr>"

definition failingChainWallet :: EVMWalletClient where
  "failingChainWallet = chainOneWallet\<lparr>getChain := Inl rpcError\<rparr>"

text \<open>A contract whose batched read answers with one balance, whatever is asked.\<close>

definition shortBatchWallet :: EVMWalletClient where
  "shortBatchWallet = chainOneWallet\<lparr>read := (\<lambda>rq. Inr \<lparr>rr_value = JArray [JBigInt 5]\<rparr>)\<rparr>"

text \<open>
  A wallet client that answers a transaction with its last argument as the hash, so that
  the \<open>data\<close> of the issued call can be read off the result.
\<close>

definition echoDataWallet :: EVMWalletClient where
  "echoDataWallet =
     chainOneWallet\<lparr>sendTransaction :=
       (\<lambda>tx. Inr \<lparr>tr_hash = (case last (tx_args tx) of ArgString d \<Rightarrow> d | _ \<Rightarrow> [])\<rparr>)\<rparr>"

definition transferOfGold :: SafeTransferFromParameters where
  "transferOfGold =
     \<lparr>st_tokenAddress = ''0xAAA'', st_from = ''alice.eth'', st_to = ''0xDDD'',
      st_id = 1, st_value = 2, st_data = None\<rparr>"

definition batchTransferOfGold :: SafeBatchTransferFromParameters where
  "batchTransferOfGold =
     \<lparr>sb_tokenAddress = ''0xAAA'', sb_from = ''alice.eth'', sb_to = ''0xDDD'',
      sb_ids = [1, 3], sb_values = [2, 4], sb_data = None\<rparr>"

definition batchOfTwo :: BalanceOfBatchParameters where
  "batchOfTwo =
     \<lparr>bb_tokenAddress = ''0xAAA'', bb_owners = [''alice.eth'', ''0xDDD''], bb_ids = [1, 3]\<rparr>"

definition approvalQuery :: IsApprovedForAllParameters where
  "approvalQuery =
     \<lparr>ia_tokenAddress = ''0xAAA'', ia_owner = ''alice.eth'', ia_operator = ''0xDDD''\<rparr>"

section \<open>Properties\<close>

subsection \<open>Sequencing, catching and rethrowing\<close>

lemma andThen_Inl [simp]: "andThen (Inl e) k = Inl e"
  by (simp add: andThen_def)

lemma andThen_Inr [simp]: "andThen (Inr v) k = k v"
  by (simp add: andThen_def)

lemma tryCatch_Inl [simp]: "tryCatch (Inl e) h = h e"
  by (simp add: tryCatch_def)

lemma tryCatch_Inr [simp]: "tryCatch (Inr v) h = Inr v"
  by (simp add: tryCatch_def)

lemma rethrow_eq [simp]: "rethrow prefix e = Inl (Error (prefix @ errorToString e))"
  by (simp add: rethrow_def throw_def)

lemma promiseAll_map_Inr: "promiseAll (map Inr vs) = Inr vs"
  by (induction vs) auto

lemma promiseAll_Inr_D: "promiseAll ps = Inr vs \<Longrightarrow> ps = map Inr vs"
  by (induction ps arbitrary: vs) (auto split: sum.splits)

lemma promiseAll_Inl: "promiseAll ps = Inl e \<Longrightarrow> Inl e \<in> set ps"
  by (induction ps) (auto split: sum.splits)

lemma promiseAll_fails: "Inl e \<in> set ps \<Longrightarrow> \<exists>e'. promiseAll ps = Inl e'"
  by (induction ps) (auto split: sum.splits)

text \<open>The string form of an error ends with its message.\<close>

lemma errorToString_embeds: "\<exists>pre. errorToString e = pre @ err_message e"
  by (cases e) (auto simp: errorToString_def)

text \<open>A rethrown error is never the error that was caught: its message is longer.\<close>

lemma rethrown_not_raw:
  assumes "prefix \<noteq> []"
  shows "Error (prefix @ errorToString e) \<noteq> e"
proof
  assume eq: "Error (prefix @ errorToString e) = e"
  obtain n m where e: "e = JsError n m" by (cases e)
  from eq e have n: "n = ''Error''" and m: "m = prefix @ errorToString e"
    by (simp_all add: Error_def)
  from m assms have "m \<noteq> []" by simp
  with e n have "errorToString e = ''Error: '' @ m"
    by (simp add: errorToString_def)
  with m have "length m = length prefix + length (''Error: '' @ m)" by simp
  then show False by simp
qed

subsection \<open>\<open>Number\<close>\<close>

lemma bitLength_numeral [simp]:
  "bitLength 0 = 0"
  "bitLength (Suc 0) = Suc 0"
  "bitLength (numeral k) = Suc (bitLength (numeral k div 2))"
  by (simp_all add: bitLength.simps [of 0] bitLength.simps [of "Suc 0"]
      bitLength.simps [of "numeral k"])

lemma numberOfBigInt_exact: "n < 2 ^ 53 \<Longrightarrow> numberOfBigInt n = Num n"
  by (simp add: numberOfBigInt_def)

text \<open>\<open>2^53 + 1\<close> is not a double: \<open>Number\<close> rounds it to \<open>2^53\<close>.\<close>

lemma numberOfBigInt_rounds: "numberOfBigInt 9007199254740993 = Num 9007199254740992"
  by (simp add: numberOfBigInt_def Let_def)

text \<open>
  The scenario of the spec: the alias \<open>alice.eth\<close> resolves, the read returns the raw
  value 5, and \<open>balanceOf\<close> returns the number 5.
\<close>

lemma balanceOf_scenario:
  "balanceOf chainOneWallet \<lparr>bo_tokenAddress = ''0xAAA'', bo_owner = ''alice.eth'', bo_id = 1\<rparr>
     = Inr (Num 5)"
  by (simp add: balanceOf_def chainOneWallet_def numberOfBigInt_def)

subsection \<open>The scan of the registry\<close>

lemma find_first_match:
  assumes "\<forall>t\<in>set pre. \<not> P t" and "P D"
  shows "find P (pre @ D # post) = Some D"
  using assms by (induction pre) auto

lemma find_some_match:
  assumes "D \<in> set xs" and "P D"
  shows "\<exists>t. find P xs = Some t \<and> P t"
  using assms by (induction xs) auto

lemma lookup_not_found:
  assumes "\<forall>t\<in>set (tokens svc). \<not> symbolMatches lc (gt_symbol p) t"
  shows "getTokenInfoBySymbolWith lc svc wc p = Inl (tokenNotFound (gt_symbol p))"
proof -
  from assms have "find (symbolMatches lc (gt_symbol p)) (tokens svc) = None"
    by (simp add: find_None_iff)
  then show ?thesis by (simp add: getTokenInfoBySymbolWith_def throw_def)
qed

lemma lookup_found:
  assumes "find (symbolMatches lc (gt_symbol p)) (tokens svc) = Some t"
      and "getChain wc = Inr c"
  shows "getTokenInfoBySymbolWith lc svc wc p =
     (case chainContractAddress t (chain_id c) of
        None \<Rightarrow> Inl (tokenNotFoundOnChain (gt_symbol p) (chain_id c))
      | Some a \<Rightarrow>
          if a = [] then Inl (tokenNotFoundOnChain (gt_symbol p) (chain_id c))
          else Inr \<lparr>ti_symbol = tk_symbol t, ti_contractAddress = a, ti_id = tk_id t,
                    ti_decimals = tk_decimals t, ti_name = tk_name t, ti_uri = tk_uri t,
                    ti_totalSupply = tk_totalSupply t\<rparr>)"
  using assms by (simp add: getTokenInfoBySymbolWith_def throw_def split: option.splits)

text \<open>
  The two messages of the lookup never coincide: one ends with the letter \<open>d\<close>, the
  other with a digit of the chain identifier.
\<close>

lemma numberToString_last:
  "numberToString n \<noteq> [] \<and> last (numberToString n) = digitChar (n mod 10)"
proof (cases "n < 10")
  case True
  then show ?thesis by (simp add: numberToString.simps [of n])
next
  case False
  then show ?thesis by (simp add: numberToString.simps [of n])
qed

lemma digitChar_digit: "digitChar d \<in> set ''0123456789''"
proof -
  have "d mod 10 < length ''0123456789''" by simp
  then show ?thesis unfolding digitChar_def by (rule nth_mem)
qed

lemma digitChar_not_d: "digitChar d \<noteq> CHR ''d''"
  using digitChar_digit [of d] by auto

lemma lookup_errors_distinct: "tokenNotFound s \<noteq> tokenNotFoundOnChain s' n"
proof
  assume eq: "tokenNotFound s = tokenNotFoundOnChain s' n"
  let ?a = "''Token with symbol '' @ s @ '' not found''"
  let ?b = "''Token with symbol '' @ s' @ '' not found on chain '' @ numberToString n"
  from eq have "?a = ?b"
    by (simp add: tokenNotFound_def tokenNotFoundOnChain_def Error_def)
  then have "last ?a = last ?b" by simp
  moreover have "last ?a = CHR ''d''" by simp
  moreover have "last ?b = digitChar (n mod 10)"
    using numberToString_last [of n] by simp
  ultimately show False using digitChar_not_d [of "n mod 10"] by simp
qed

subsection \<open>isApprovedForAll\<close>

lemma isApprovedForAll_success:
  assumes "resolveAddress wc (ia_owner p) = Inr owner"
      and "resolveAddress wc (ia_operator p) = Inr operator"
      and "read wc \<lparr>rq_address = ia_tokenAddress p, rq_functionName = ''isApprovedForAll'',
                    rq_args = [ArgString owner, ArgString operator]\<rparr> = Inr approved"
  shows "isApprovedForAll wc p = Inr approved"
  using assms by (simp add: isApprovedForAll_def)

text \<open>
  C1. The claim: when both resolutions and the read call succeed, \<open>isApprovedForAll\<close>
  returns the boolean of the read call, not an object around it. The code returns the
  object the read call resolved to: on a wallet client whose read answers
  \<open>{value: true}\<close>, the operation returns \<open>{value: true}\<close>. \<open>balanceOf\<close> and
  \<open>balanceOfBatch\<close> take \<open>.value\<close> out of the same kind of object.
\<close>

theorem isApprovedForAll_returns_read_result:
  "read chainOneWallet
     \<lparr>rq_address = ''0xAAA'', rq_functionName = ''isApprovedForAll'',
      rq_args = [ArgString ''0xBBB'', ArgString ''0xDDD'']\<rparr> = Inr \<lparr>rr_value = JBoolean True\<rparr>
   \<and> isApprovedForAll chainOneWallet approvalQuery = Inr \<lparr>rr_value = JBoolean True\<rparr>"
  by (simp add: isApprovedForAll_def chainOneWallet_def approvalQuery_def)

subsection \<open>The symbol match\<close>

text \<open>
  C2 as stated fails: \<open>GOLD\<close> is registered, \<open>Gold\<close> equals it up to letter case, and
  the lookup of \<open>Gold\<close> fails with the not-found error.
\<close>

theorem lookup_mixed_case_not_found:
  "goldToken \<in> set (tokens \<lparr>tokens = [goldToken]\<rparr>)
   \<and> toLowerCase ''Gold'' = toLowerCase (tk_symbol goldToken)
   \<and> getTokenInfoBySymbol \<lparr>tokens = [goldToken]\<rparr> chainOneWallet \<lparr>gt_symbol = ''Gold''\<rparr>
       = Inl (tokenNotFound ''Gold'')"
  by (simp add: getTokenInfoBySymbol_def getTokenInfoBySymbolWith_def symbolMatches_def
      goldToken_def toLowerCase_def toLowerCaseChar_def throw_def)

text \<open>
  C2, amended. For every registered descriptor \<open>D\<close> and every query \<open>s\<close> that is
  \<open>D\<close>'s symbol as written or the lowercase form of \<open>D\<close>'s symbol, the scan finds a
  descriptor that has \<open>s\<close> as its symbol or lowercase symbol (\<open>D\<close> itself when no
  earlier descriptor matches \<open>s\<close>), and when the wallet client reports its chain the
  lookup does not fail with the not-found error. A query \<open>s'\<close> that is neither the
  symbol nor the lowercase symbol of any registered descriptor fails with the not-found
  error, whatever its letter case.
\<close>

theorem lookup_matches_exact_or_lowercase:
  assumes "D \<in> set (tokens svc)"
      and "s = tk_symbol D \<or> s = lc (tk_symbol D)"
  shows "(\<exists>t. find (symbolMatches lc s) (tokens svc) = Some t
            \<and> (s = tk_symbol t \<or> s = lc (tk_symbol t)))
       \<and> (\<forall>c. getChain wc = Inr c
            \<longrightarrow> getTokenInfoBySymbolWith lc svc wc \<lparr>gt_symbol = s\<rparr> \<noteq> Inl (tokenNotFound s))
       \<and> (\<forall>pre post. tokens svc = pre @ D # post \<and> (\<forall>t\<in>set pre. \<not> symbolMatches lc s t)
            \<longrightarrow> find (symbolMatches lc s) (tokens svc) = Some D)
       \<and> ((\<forall>t\<in>set (tokens svc). s' \<noteq> tk_symbol t \<and> s' \<noteq> lc (tk_symbol t))
            \<longrightarrow> getTokenInfoBySymbolWith lc svc wc \<lparr>gt_symbol = s'\<rparr> = Inl (tokenNotFound s'))"
proof -
  from assms(2) have match: "symbolMatches lc s D" by (auto simp: symbolMatches_def)
  with assms(1) obtain t where t: "find (symbolMatches lc s) (tokens svc) = Some t"
    and mt: "symbolMatches lc s t"
    using find_some_match [of D "tokens svc" "symbolMatches lc s"] by blast
  from mt have forms: "s = tk_symbol t \<or> s = lc (tk_symbol t)"
    by (auto simp: symbolMatches_def)
  have found: "getTokenInfoBySymbolWith lc svc wc \<lparr>gt_symbol = s\<rparr> \<noteq> Inl (tokenNotFound s)"
    if "getChain wc = Inr c" for c
    using lookup_found [of lc "\<lparr>gt_symbol = s\<rparr>" svc t wc c] t that
      lookup_errors_distinct [of s s "chain_id c"]
    by (auto split: option.splits if_splits)
  have first: "find (symbolMatches lc s) (tokens svc) = Some D"
    if "tokens svc = pre @ D # post \<and> (\<forall>t\<in>set pre. \<not> symbolMatches lc s t)" for pre post
    using that match find_first_match [of pre "symbolMatches lc s" D post] by simp
  have other: "getTokenInfoBySymbolWith lc svc wc \<lparr>gt_symbol = s'\<rparr> = Inl (tokenNotFound s')"
    if "\<forall>t\<in>set (tokens svc). s' \<noteq> tk_symbol t \<and> s' \<noteq> lc (tk_symbol t)"
    using lookup_not_found [of svc lc "\<lparr>gt_symbol = s'\<rparr>" wc] that
    by (simp add: symbolMatches_def)
  from t forms found first other show ?thesis by blast
qed

theorem lookup_matches_exact_or_lowercase_witness:
  "find (symbolMatches toLowerCase ''gold'') (tokens \<lparr>tokens = [goldToken]\<rparr>) = Some goldToken
   \<and> getTokenInfoBySymbolWith toLowerCase \<lparr>tokens = [goldToken]\<rparr> chainOneWallet
        \<lparr>gt_symbol = ''gold''\<rparr> \<noteq> Inl (tokenNotFound ''gold'')
   \<and> getTokenInfoBySymbolWith toLowerCase \<lparr>tokens = [goldToken]\<rparr> chainOneWallet
        \<lparr>gt_symbol = ''Gold''\<rparr> = Inl (tokenNotFound ''Gold'')"
proof -
  have a: "goldToken \<in> set (tokens \<lparr>tokens = [goldToken]\<rparr>)" by simp
  have b: "''gold'' = tk_symbol goldToken \<or> ''gold'' = toLowerCase (tk_symbol goldToken)"
    by (simp add: goldToken_def toLowerCase_def toLowerCaseChar_def)
  have c: "getChain chainOneWallet = Inr \<lparr>chain_id = 1\<rparr>" by (simp add: chainOneWallet_def)
  have d: "tokens \<lparr>tokens = [goldToken]\<rparr> = [] @ goldToken # []
      \<and> (\<forall>t\<in>set []. \<not> symbolMatches toLowerCase ''gold'' t)"
    by simp
  have e: "\<forall>t\<in>set (tokens \<lparr>tokens = [goldToken]\<rparr>).
      ''Gold'' \<noteq> tk_symbol t \<and> ''Gold'' \<noteq> toLowerCase (tk_symbol t)"
    by (simp add: goldToken_def toLowerCase_def toLowerCaseChar_def)
  from lookup_matches_exact_or_lowercase
    [where D = goldToken and svc = "\<lparr>tokens = [goldToken]\<rparr>" and s = "''gold''"
       and lc = toLowerCase and wc = chainOneWallet and s' = "''Gold''", OF a b] c d e
  show ?thesis by blast
qed

subsection \<open>balanceOfBatch\<close>

text \<open>
  C3 as stated fails: the result has one number per raw value the read call returned,
  and nothing compares that with the input. Here two owners and two ids are asked for, the
  contract answers with one balance, and the call succeeds with one number.
\<close>

theorem balanceOfBatch_length_mismatch:
  "balanceOfBatch shortBatchWallet batchOfTwo = Inr [Num 5]
   \<and> length (bb_owners batchOfTwo) = 2 \<and> length (bb_ids batchOfTwo) = 2"
  by (simp add: balanceOfBatch_def shortBatchWallet_def chainOneWallet_def batchOfTwo_def
      mapNumber_def numberOfBigInt_def)

text \<open>
  C3, amended. For every call to \<open>balanceOfBatch\<close> that succeeds, every owner resolved,
  the read call was issued with the resolved owners in input order and the ids unchanged,
  it returned an array of raw values, and the result is \<open>Number\<close> applied to each raw
  value in order: the result has the length of that array, and the length of the input
  when the read call returns one raw value per input pair.
\<close>

theorem balanceOfBatch_follows_read_result:
  assumes "balanceOfBatch wc p = Inr out"
  shows "\<exists>resolvedOwners rawBalances.
           map (resolveAddress wc) (bb_owners p) = map Inr resolvedOwners
         \<and> read wc \<lparr>rq_address = bb_tokenAddress p, rq_functionName = ''balanceOfBatch'',
                     rq_args = [ArgArray (map ArgString resolvedOwners),
                                ArgArray (map ArgNumber (bb_ids p))]\<rparr>
             = Inr \<lparr>rr_value = JArray rawBalances\<rparr>
         \<and> out = map Number rawBalances
         \<and> length out = length rawBalances
         \<and> (length rawBalances = length (bb_owners p) \<longrightarrow> length out = length (bb_owners p))"
proof -
  let ?rs = "promiseAll (map (resolveAddress wc) (bb_owners p))"
  obtain resolved where r: "?rs = Inr resolved"
    using assms by (cases ?rs) (simp_all add: balanceOfBatch_def)
  let ?rq = "\<lparr>rq_address = bb_tokenAddress p, rq_functionName = ''balanceOfBatch'',
              rq_args = [ArgArray (map ArgString resolved),
                         ArgArray (map ArgNumber (bb_ids p))]\<rparr>"
  obtain raw where rd: "read wc ?rq = Inr raw"
    using assms r by (cases "read wc ?rq") (simp_all add: balanceOfBatch_def)
  from assms r rd have m: "mapNumber (rr_value raw) = Inr out"
    by (cases "mapNumber (rr_value raw)") (simp_all add: balanceOfBatch_def)
  then obtain raws where v: "rr_value raw = JArray raws" and out: "out = map Number raws"
    by (cases "rr_value raw") (auto simp: mapNumber_def throw_def)
  from v have "raw = \<lparr>rr_value = JArray raws\<rparr>" by (cases raw) simp
  with rd have "read wc ?rq = Inr \<lparr>rr_value = JArray raws\<rparr>" by simp
  moreover from r have "map (resolveAddress wc) (bb_owners p) = map Inr resolved"
    by (rule promiseAll_Inr_D)
  ultimately show ?thesis using out by auto
qed

theorem balanceOfBatch_follows_read_result_witness:
  "balanceOfBatch chainOneWallet batchOfTwo = Inr [Num 5, Num 7]
   \<and> (\<exists>resolvedOwners rawBalances.
           map (resolveAddress chainOneWallet) (bb_owners batchOfTwo) = map Inr resolvedOwners
         \<and> read chainOneWallet
              \<lparr>rq_address = bb_tokenAddress batchOfTwo, rq_functionName = ''balanceOfBatch'',
               rq_args = [ArgArray (map ArgString resolvedOwners),
                          ArgArray (map ArgNumber (bb_ids batchOfTwo))]\<rparr>
             = Inr \<lparr>rr_value = JArray rawBalances\<rparr>
         \<and> [Num 5, Num 7] = map Number rawBalances
         \<and> length [Num 5, Num 7] = length rawBalances
         \<and> (length rawBalances = length (bb_owners batchOfTwo)
              \<longrightarrow> length [Num 5, Num 7] = length (bb_owners batchOfTwo)))"
proof -
  have run: "balanceOfBatch chainOneWallet batchOfTwo = Inr [Num 5, Num 7]"
    by (simp add: balanceOfBatch_def chainOneWallet_def batchOfTwo_def mapNumber_def
        numberOfBigInt_def)
  from run balanceOfBatch_follows_read_result [OF run] show ?thesis by (rule conjI)
qed

subsection \<open>The failures of the lookup\<close>




subsection \<open>The round trip\<close>

text \<open>
  C5 as stated fails: in a registry that holds \<open>D\<close> behind another descriptor of the
  same symbol, the lookup of \<open>D\<close>'s symbol returns the fields of the other descriptor.
\<close>

theorem lookup_round_trip_shadowed:
  "goldToken \<in> set (tokens (newErc1155Service (Some [otherGoldToken, goldToken])))
   \<and> getChain chainOneWallet = Inr \<lparr>chain_id = 1\<rparr>
   \<and> tk_chains goldToken 1 = Some \<lparr>contractAddress = ''0xAAA''\<rparr>
   \<and> getTokenInfoBySymbol (newErc1155Service (Some [otherGoldToken, goldToken]))
        chainOneWallet \<lparr>gt_symbol = tk_symbol goldToken\<rparr>
       = Inr \<lparr>ti_symbol = ''GOLD'', ti_contractAddress = ''0xCCC'', ti_id = 3,
               ti_decimals = 6, ti_name = ''Other gold'', ti_uri = ''ipfs://other'',
               ti_totalSupply = 50\<rparr>
   \<and> getTokenInfoBySymbol (newErc1155Service (Some [otherGoldToken, goldToken]))
        chainOneWallet \<lparr>gt_symbol = tk_symbol goldToken\<rparr>
       \<noteq> Inr \<lparr>ti_symbol = tk_symbol goldToken, ti_contractAddress = ''0xAAA'',
               ti_id = tk_id goldToken, ti_decimals = tk_decimals goldToken,
               ti_name = tk_name goldToken, ti_uri = tk_uri goldToken,
               ti_totalSupply = tk_totalSupply goldToken\<rparr>"
  by (simp add: getTokenInfoBySymbol_def getTokenInfoBySymbolWith_def symbolMatches_def
      newErc1155Service_def goldToken_def otherGoldToken_def chainOneWallet_def
      chainContractAddress_def)

text \<open>
  C5, amended. For every descriptor \<open>D\<close>, in a registry constructed with \<open>D\<close> in which
  no descriptor before \<open>D\<close> matches \<open>D\<close>'s symbol (the registry of \<open>D\<close> alone is
  one), and with a non-empty contract address registered in \<open>D\<close>'s chain table for the
  wallet client's chain, the lookup of \<open>D\<close>'s symbol returns the record of the seven
  fields: \<open>contractAddress\<close> is that address, every other field is \<open>D\<close>'s. The chain
  table is not part of the record.
\<close>

theorem lookup_round_trip:
  assumes "\<forall>t\<in>set pre. \<not> symbolMatches lc (tk_symbol D) t"
      and "getChain wc = Inr c"
      and "tk_chains D (chain_id c) = Some entry"
      and "contractAddress entry \<noteq> []"
  shows "getTokenInfoBySymbolWith lc (newErc1155Service (Some (pre @ D # post))) wc
           \<lparr>gt_symbol = tk_symbol D\<rparr>
         = Inr \<lparr>ti_symbol = tk_symbol D, ti_contractAddress = contractAddress entry,
                 ti_id = tk_id D, ti_decimals = tk_decimals D, ti_name = tk_name D,
                 ti_uri = tk_uri D, ti_totalSupply = tk_totalSupply D\<rparr>"
proof -
  have "symbolMatches lc (tk_symbol D) D" by (simp add: symbolMatches_def)
  with assms(1) have "find (symbolMatches lc (tk_symbol D)) (pre @ D # post) = Some D"
    by (rule find_first_match)
  then have "find (symbolMatches lc (gt_symbol \<lparr>gt_symbol = tk_symbol D\<rparr>))
      (tokens (newErc1155Service (Some (pre @ D # post)))) = Some D"
    by (simp add: newErc1155Service_def)
  from lookup_found [OF this assms(2)] assms(3,4) show ?thesis
    by (simp add: chainContractAddress_def)
qed

theorem lookup_round_trip_witness:
  "getTokenInfoBySymbolWith toLowerCase (newErc1155Service (Some [goldToken])) chainOneWallet
     \<lparr>gt_symbol = ''GOLD''\<rparr>
   = Inr \<lparr>ti_symbol = ''GOLD'', ti_contractAddress = ''0xAAA'', ti_id = 1, ti_decimals = 0,
           ti_name = ''Gold'', ti_uri = ''ipfs://gold'', ti_totalSupply = 1000\<rparr>"
proof -
  have a: "\<forall>t\<in>set []. \<not> symbolMatches toLowerCase (tk_symbol goldToken) t" by simp
  have b: "getChain chainOneWallet = Inr \<lparr>chain_id = 1\<rparr>" by (simp add: chainOneWallet_def)
  have c: "tk_chains goldToken (chain_id \<lparr>chain_id = 1\<rparr>) = Some \<lparr>contractAddress = ''0xAAA''\<rparr>"
    by (simp add: goldToken_def)
  have d: "contractAddress \<lparr>contractAddress = ''0xAAA''\<rparr> \<noteq> []" by simp
  from lookup_round_trip [OF a b c d, of "[]"] show ?thesis by (simp add: goldToken_def)
qed

subsection \<open>The exact and the lowercase query\<close>

text \<open>
  C6 as stated fails: with \<open>gold\<close> registered before \<open>GOLD\<close>, the lookup of the symbol
  \<open>GOLD\<close> resolves to the descriptor \<open>GOLD\<close> and the lookup of its lowercase form
  resolves to the descriptor \<open>gold\<close>.
\<close>

theorem lookup_exact_and_lowercase_differ:
  "goldToken \<in> set (tokens \<lparr>tokens = [lowerGoldToken, goldToken]\<rparr>)
   \<and> getTokenInfoBySymbol \<lparr>tokens = [lowerGoldToken, goldToken]\<rparr> chainOneWallet
        \<lparr>gt_symbol = tk_symbol goldToken\<rparr>
       = Inr \<lparr>ti_symbol = ''GOLD'', ti_contractAddress = ''0xAAA'', ti_id = 1,
               ti_decimals = 0, ti_name = ''Gold'', ti_uri = ''ipfs://gold'',
               ti_totalSupply = 1000\<rparr>
   \<and> getTokenInfoBySymbol \<lparr>tokens = [lowerGoldToken, goldToken]\<rparr> chainOneWallet
        \<lparr>gt_symbol = toLowerCase (tk_symbol goldToken)\<rparr>
       = Inr \<lparr>ti_symbol = ''gold'', ti_contractAddress = ''0xBBB'', ti_id = 2,
               ti_decimals = 18, ti_name = ''Lower gold'', ti_uri = ''ipfs://lower'',
               ti_totalSupply = 7\<rparr>"
  by (simp add: getTokenInfoBySymbol_def getTokenInfoBySymbolWith_def symbolMatches_def
      goldToken_def lowerGoldToken_def chainOneWallet_def chainContractAddress_def
      toLowerCase_def toLowerCaseChar_def)

text \<open>
  C6, amended. For every registered descriptor \<open>D\<close> such that no descriptor before it
  in the list matches \<open>D\<close>'s symbol or the lowercase form of \<open>D\<close>'s symbol, the lookup
  of the symbol and the lookup of its lowercase form both resolve to \<open>D\<close>, and each
  returns a record exactly when the other returns the same record. (When they fail for
  the chain, each message quotes its own query.)
\<close>

theorem lookup_exact_and_lowercase_agree:
  assumes "tokens svc = pre @ D # post"
      and "\<forall>t\<in>set pre. \<not> symbolMatches lc (tk_symbol D) t
                       \<and> \<not> symbolMatches lc (lc (tk_symbol D)) t"
  shows "find (symbolMatches lc (tk_symbol D)) (tokens svc) = Some D
       \<and> find (symbolMatches lc (lc (tk_symbol D))) (tokens svc) = Some D
       \<and> (\<forall>info. getTokenInfoBySymbolWith lc svc wc \<lparr>gt_symbol = tk_symbol D\<rparr> = Inr info
               \<longleftrightarrow> getTokenInfoBySymbolWith lc svc wc \<lparr>gt_symbol = lc (tk_symbol D)\<rparr>
                     = Inr info)"
proof -
  have m1: "symbolMatches lc (tk_symbol D) D" and m2: "symbolMatches lc (lc (tk_symbol D)) D"
    by (simp_all add: symbolMatches_def)
  from assms(2) have p1: "\<forall>t\<in>set pre. \<not> symbolMatches lc (tk_symbol D) t"
    and p2: "\<forall>t\<in>set pre. \<not> symbolMatches lc (lc (tk_symbol D)) t"
    by simp_all
  have f1: "find (symbolMatches lc (tk_symbol D)) (tokens svc) = Some D"
    unfolding assms(1) using p1 m1 by (rule find_first_match)
  have f2: "find (symbolMatches lc (lc (tk_symbol D))) (tokens svc) = Some D"
    unfolding assms(1) using p2 m2 by (rule find_first_match)
  have "getTokenInfoBySymbolWith lc svc wc \<lparr>gt_symbol = tk_symbol D\<rparr> = Inr info
      \<longleftrightarrow> getTokenInfoBySymbolWith lc svc wc \<lparr>gt_symbol = lc (tk_symbol D)\<rparr> = Inr info"
    for info
    using f1 f2
    by (cases "getChain wc")
      (auto simp: getTokenInfoBySymbolWith_def throw_def split: option.splits)
  with f1 f2 show ?thesis by blast
qed

theorem lookup_exact_and_lowercase_agree_witness:
  "find (symbolMatches toLowerCase (tk_symbol goldToken)) (tokens \<lparr>tokens = [goldToken]\<rparr>)
     = Some goldToken
   \<and> find (symbolMatches toLowerCase (toLowerCase (tk_symbol goldToken)))
        (tokens \<lparr>tokens = [goldToken]\<rparr>) = Some goldToken
   \<and> getTokenInfoBySymbolWith toLowerCase \<lparr>tokens = [goldToken]\<rparr> chainOneWallet
        \<lparr>gt_symbol = toLowerCase (tk_symbol goldToken)\<rparr>
       = Inr \<lparr>ti_symbol = ''GOLD'', ti_contractAddress = ''0xAAA'', ti_id = 1,
               ti_decimals = 0, ti_name = ''Gold'', ti_uri = ''ipfs://gold'',
               ti_totalSupply = 1000\<rparr>"
proof -
  have a: "tokens \<lparr>tokens = [goldToken]\<rparr> = [] @ goldToken # []" by simp
  have b: "\<forall>t\<in>set []. \<not> symbolMatches toLowerCase (tk_symbol goldToken) t
             \<and> \<not> symbolMatches toLowerCase (toLowerCase (tk_symbol goldToken)) t"
    by simp
  have exact: "getTokenInfoBySymbolWith toLowerCase \<lparr>tokens = [goldToken]\<rparr> chainOneWallet
        \<lparr>gt_symbol = tk_symbol goldToken\<rparr>
       = Inr \<lparr>ti_symbol = ''GOLD'', ti_contractAddress = ''0xAAA'', ti_id = 1,
               ti_decimals = 0, ti_name = ''Gold'', ti_uri = ''ipfs://gold'',
               ti_totalSupply = 1000\<rparr>"
    by (simp add: getTokenInfoBySymbolWith_def symbolMatches_def goldToken_def
        chainOneWallet_def chainContractAddress_def)
  from lookup_exact_and_lowercase_agree [OF a b, of chainOneWallet] exact
  show ?thesis by blast
qed

subsection \<open>The default of \<open>data\<close>\<close>

text \<open>
  C7. In \<open>safeTransferFrom\<close> and \<open>safeBatchTransferFrom\<close>, once both addresses are
  resolved, the outcome is that of the one transaction whose last argument is \<open>"0x"\<close>
  when \<open>data\<close> is omitted and the supplied \<open>data\<close>, unchanged, otherwise; a call that
  omits \<open>data\<close> behaves as the call that supplies \<open>"0x"\<close>.
\<close>

theorem transfer_data_default:
  assumes "resolveAddress wc (st_from p) = Inr from"
      and "resolveAddress wc (st_to p) = Inr to"
      and "resolveAddress wc (sb_from q) = Inr bfrom"
      and "resolveAddress wc (sb_to q) = Inr bto"
  shows "safeTransferFrom wc p =
           (case sendTransaction wc
                   \<lparr>tx_to = st_tokenAddress p, tx_functionName = ''safeTransferFrom'',
                    tx_args = [ArgString from, ArgString to, ArgNumber (st_id p),
                               ArgNumber (st_value p),
                               ArgString (case st_data p of None \<Rightarrow> ''0x'' | Some d \<Rightarrow> d)]\<rparr> of
              Inl e \<Rightarrow> Inl (Error (''Failed to transfer: '' @ errorToString e))
            | Inr h \<Rightarrow> Inr (tr_hash h))
       \<and> safeBatchTransferFrom wc q =
           (case sendTransaction wc
                   \<lparr>tx_to = sb_tokenAddress q, tx_functionName = ''safeBatchTransferFrom'',
                    tx_args = [ArgString bfrom, ArgString bto,
                               ArgArray (map ArgNumber (sb_ids q)),
                               ArgArray (map ArgNumber (sb_values q)),
                               ArgString (case sb_data q of None \<Rightarrow> ''0x'' | Some d \<Rightarrow> d)]\<rparr> of
              Inl e \<Rightarrow> Inl (Error (''Failed to batch transfer: '' @ errorToString e))
            | Inr h \<Rightarrow> Inr (tr_hash h))
       \<and> safeTransferFrom wc (p\<lparr>st_data := None\<rparr>)
           = safeTransferFrom wc (p\<lparr>st_data := Some ''0x''\<rparr>)
       \<and> safeBatchTransferFrom wc (q\<lparr>sb_data := None\<rparr>)
           = safeBatchTransferFrom wc (q\<lparr>sb_data := Some ''0x''\<rparr>)"
proof (intro conjI)
  show "safeTransferFrom wc p =
           (case sendTransaction wc
                   \<lparr>tx_to = st_tokenAddress p, tx_functionName = ''safeTransferFrom'',
                    tx_args = [ArgString from, ArgString to, ArgNumber (st_id p),
                               ArgNumber (st_value p),
                               ArgString (case st_data p of None \<Rightarrow> ''0x'' | Some d \<Rightarrow> d)]\<rparr> of
              Inl e \<Rightarrow> Inl (Error (''Failed to transfer: '' @ errorToString e))
            | Inr h \<Rightarrow> Inr (tr_hash h))"
    using assms(1,2)
    by (simp add: safeTransferFrom_def dataOrDefault_def andThen_def tryCatch_def
        split: sum.splits)
next
  show "safeBatchTransferFrom wc q =
           (case sendTransaction wc
                   \<lparr>tx_to = sb_tokenAddress q, tx_functionName = ''safeBatchTransferFrom'',
                    tx_args = [ArgString bfrom, ArgString bto,
                               ArgArray (map ArgNumber (sb_ids q)),
                               ArgArray (map ArgNumber (sb_values q)),
                               ArgString (case sb_data q of None \<Rightarrow> ''0x'' | Some d \<Rightarrow> d)]\<rparr> of
              Inl e \<Rightarrow> Inl (Error (''Failed to batch transfer: '' @ errorToString e))
            | Inr h \<Rightarrow> Inr (tr_hash h))"
    using assms(3,4)
    by (simp add: safeBatchTransferFrom_def dataOrDefault_def andThen_def tryCatch_def
        split: sum.splits)
next
  show "safeTransferFrom wc (p\<lparr>st_data := None\<rparr>)
      = safeTransferFrom wc (p\<lparr>st_data := Some ''0x''\<rparr>)"
    by (simp add: safeTransferFrom_def dataOrDefault_def)
next
  show "safeBatchTransferFrom wc (q\<lparr>sb_data := None\<rparr>)
           = safeBatchTransferFrom wc (q\<lparr>sb_data := Some ''0x''\<rparr>)"
    by (simp add: safeBatchTransferFrom_def dataOrDefault_def)
qed

text \<open>
  On the wallet client that answers with the \<open>data\<close> it was sent: \<open>"0x"\<close> when
  \<open>data\<close> is omitted, the supplied bytes otherwise.
\<close>

theorem transfer_data_default_witness:
  "safeTransferFrom echoDataWallet transferOfGold = Inr ''0x''
   \<and> safeBatchTransferFrom echoDataWallet batchTransferOfGold = Inr ''0x''
   \<and> safeTransferFrom echoDataWallet (transferOfGold\<lparr>st_data := Some ''0xfeed''\<rparr>)
       = Inr ''0xfeed''"
proof -
  have r: "resolveAddress echoDataWallet (st_from transferOfGold) = Inr ''0xBBB''"
    "resolveAddress echoDataWallet (st_to transferOfGold) = Inr ''0xDDD''"
    "resolveAddress echoDataWallet (sb_from batchTransferOfGold) = Inr ''0xBBB''"
    "resolveAddress echoDataWallet (sb_to batchTransferOfGold) = Inr ''0xDDD''"
    by (simp_all add: echoDataWallet_def chainOneWallet_def transferOfGold_def
        batchTransferOfGold_def)
  have r': "resolveAddress echoDataWallet (st_from (transferOfGold\<lparr>st_data := Some ''0xfeed''\<rparr>))
        = Inr ''0xBBB''"
    "resolveAddress echoDataWallet (st_to (transferOfGold\<lparr>st_data := Some ''0xfeed''\<rparr>))
        = Inr ''0xDDD''"
    by (simp_all add: echoDataWallet_def chainOneWallet_def transferOfGold_def)
  from transfer_data_default [OF r]
  have a: "safeTransferFrom echoDataWallet transferOfGold = Inr ''0x''
     \<and> safeBatchTransferFrom echoDataWallet batchTransferOfGold = Inr ''0x''"
    by (simp add: echoDataWallet_def chainOneWallet_def transferOfGold_def
        batchTransferOfGold_def)
  from transfer_data_default [OF r' r(3,4)]
  have b: "safeTransferFrom echoDataWallet (transferOfGold\<lparr>st_data := Some ''0xfeed''\<rparr>)
      = Inr ''0xfeed''"
    by (simp add: echoDataWallet_def chainOneWallet_def transferOfGold_def)
  from a b show ?thesis by simp
qed

subsection \<open>Failures of the wallet client\<close>

text \<open>
  C8 as stated fails: \<open>getTokenInfoBySymbol\<close> has no \<open>try\<close>, so a failure of
  \<open>getChain\<close> reaches the caller as the wallet client raised it.
\<close>

theorem getChain_failure_escapes:
  "getChain failingChainWallet = Inl rpcError
   \<and> getTokenInfoBySymbol \<lparr>tokens = [goldToken]\<rparr> failingChainWallet \<lparr>gt_symbol = ''GOLD''\<rparr>
       = Inl rpcError
   \<and> rpcError = JsError ''RpcError'' ''connection refused''"
  by (simp add: getTokenInfoBySymbol_def getTokenInfoBySymbolWith_def symbolMatches_def
      goldToken_def failingChainWallet_def chainOneWallet_def rpcError_def)

lemma balanceOfBatch_resolve_fails:
  assumes "Inl e \<in> set (map (resolveAddress wc) (bb_owners bb))"
  shows "\<exists>e'. Inl e' \<in> set (map (resolveAddress wc) (bb_owners bb))
            \<and> balanceOfBatch wc bb
                = Inl (Error (''Failed to fetch batch balances: '' @ errorToString e'))"
proof -
  from promiseAll_fails [OF assms] obtain e'
    where f: "promiseAll (map (resolveAddress wc) (bb_owners bb)) = Inl e'" by blast
  from promiseAll_Inl [OF f] have "Inl e' \<in> set (map (resolveAddress wc) (bb_owners bb))" .
  moreover from f have "balanceOfBatch wc bb
      = Inl (Error (''Failed to fetch batch balances: '' @ errorToString e'))"
    by (simp add: balanceOfBatch_def)
  ultimately show ?thesis by blast
qed

text \<open>
  C8, amended. In each of the six operations that call the contract, a failure \<open>e\<close> of a
  wallet-client call made within it (\<open>resolveAddress\<close>, \<open>read\<close>, \<open>sendTransaction\<close>)
  is caught and rethrown as an \<open>Error\<close> whose message is the operation's prefix followed
  by the string form of \<open>e\<close>, which ends with the message of \<open>e\<close>; the rethrown error
  is never \<open>e\<close> itself. When several owners of \<open>balanceOfBatch\<close> fail to resolve, the
  error of one of them is rethrown. In particular a failure of \<open>sendTransaction\<close> inside
  \<open>safeTransferFrom\<close> surfaces as \<open>Failed to transfer: \<close> followed by the original error.
  \<open>getTokenInfoBySymbol\<close> catches nothing: once a descriptor is found, a failure of
  \<open>getChain\<close> is its outcome, unchanged.
\<close>

theorem wallet_failures_rethrown:
  "(resolveAddress wc (st_from st) = Inr from \<and> resolveAddress wc (st_to st) = Inr to
      \<and> sendTransaction wc
           \<lparr>tx_to = st_tokenAddress st, tx_functionName = ''safeTransferFrom'',
            tx_args = [ArgString from, ArgString to, ArgNumber (st_id st),
                       ArgNumber (st_value st), ArgString (dataOrDefault (st_data st))]\<rparr> = Inl e
      \<longrightarrow> safeTransferFrom wc st = Inl (Error (''Failed to transfer: '' @ errorToString e)))
   \<and> (resolveAddress wc (st_from st) = Inl e
      \<longrightarrow> safeTransferFrom wc st = Inl (Error (''Failed to transfer: '' @ errorToString e)))
   \<and> (resolveAddress wc (st_from st) = Inr from \<and> resolveAddress wc (st_to st) = Inl e
      \<longrightarrow> safeTransferFrom wc st = Inl (Error (''Failed to transfer: '' @ errorToString e)))
   \<and> (resolveAddress wc (sb_from sb) = Inr from \<and> resolveAddress wc (sb_to sb) = Inr to
      \<and> sendTransaction wc
           \<lparr>tx_to = sb_tokenAddress sb, tx_functionName = ''safeBatchTransferFrom'',
            tx_args = [ArgString from, ArgString to, ArgArray (map ArgNumber (sb_ids sb)),
                       ArgArray (map ArgNumber (sb_values sb)),
                       ArgString (dataOrDefault (sb_data sb))]\<rparr> = Inl e
      \<longrightarrow> safeBatchTransferFrom wc sb
            = Inl (Error (''Failed to batch transfer: '' @ errorToString e)))
   \<and> (resolveAddress wc (sb_from sb) = Inl e
      \<longrightarrow> safeBatchTransferFrom wc sb
            = Inl (Error (''Failed to batch transfer: '' @ errorToString e)))
   \<and> (resolveAddress wc (sb_from sb) = Inr from \<and> resolveAddress wc (sb_to sb) = Inl e
      \<longrightarrow> safeBatchTransferFrom wc sb
            = Inl (Error (''Failed to batch transfer: '' @ errorToString e)))
   \<and> (resolveAddress wc (sa_operator sa) = Inr operator
      \<and> sendTransaction wc
           \<lparr>tx_to = sa_tokenAddress sa, tx_functionName = ''setApprovalForAll'',
            tx_args = [ArgString operator, ArgBoolean (sa_approved sa)]\<rparr> = Inl e
      \<longrightarrow> setApprovalForAll wc sa = Inl (Error (''Failed to set approval: '' @ errorToString e)))
   \<and> (resolveAddress wc (sa_operator sa) = Inl e
      \<longrightarrow> setApprovalForAll wc sa = Inl (Error (''Failed to set approval: '' @ errorToString e)))
   \<and> (resolveAddress wc (bo_owner bo) = Inr owner
      \<and> read wc \<lparr>rq_address = bo_tokenAddress bo, rq_functionName = ''balanceOf'',
                  rq_args = [ArgString owner, ArgNumber (bo_id bo)]\<rparr> = Inl e
      \<longrightarrow> balanceOf wc bo = Inl (Error (''Failed to fetch balance: '' @ errorToString e)))
   \<and> (resolveAddress wc (bo_owner bo) = Inl e
      \<longrightarrow> balanceOf wc bo = Inl (Error (''Failed to fetch balance: '' @ errorToString e)))
   \<and> (map (resolveAddress wc) (bb_owners bb) = map Inr owners
      \<and> read wc \<lparr>rq_address = bb_tokenAddress bb, rq_functionName = ''balanceOfBatch'',
                  rq_args = [ArgArray (map ArgString owners),
                             ArgArray (map ArgNumber (bb_ids bb))]\<rparr> = Inl e
      \<longrightarrow> balanceOfBatch wc bb
            = Inl (Error (''Failed to fetch batch balances: '' @ errorToString e)))
   \<and> (Inl e \<in> set (map (resolveAddress wc) (bb_owners bb))
      \<longrightarrow> (\<exists>e'. Inl e' \<in> set (map (resolveAddress wc) (bb_owners bb))
             \<and> balanceOfBatch wc bb
                 = Inl (Error (''Failed to fetch batch balances: '' @ errorToString e'))))
   \<and> (resolveAddress wc (ia_owner ia) = Inr owner \<and> resolveAddress wc (ia_operator ia) = Inr operator
      \<and> read wc \<lparr>rq_address = ia_tokenAddress ia, rq_functionName = ''isApprovedForAll'',
                  rq_args = [ArgString owner, ArgString operator]\<rparr> = Inl e
      \<longrightarrow> isApprovedForAll wc ia = Inl (Error (''Failed to fetch balance: '' @ errorToString e)))
   \<and> (resolveAddress wc (ia_owner ia) = Inl e
      \<longrightarrow> isApprovedForAll wc ia = Inl (Error (''Failed to fetch balance: '' @ errorToString e)))
   \<and> (resolveAddress wc (ia_owner ia) = Inr owner \<and> resolveAddress wc (ia_operator ia) = Inl e
      \<longrightarrow> isApprovedForAll wc ia = Inl (Error (''Failed to fetch balance: '' @ errorToString e)))
   \<and> (\<exists>pre. errorToString e = pre @ err_message e)
   \<and> (prefix \<noteq> [] \<longrightarrow> Error (prefix @ errorToString e) \<noteq> e)
   \<and> (find (symbolMatches lc (gt_symbol gt)) (tokens svc) = Some t \<and> getChain wc = Inl e
      \<longrightarrow> getTokenInfoBySymbolWith lc svc wc gt = Inl e)"
proof -
  have bb2: "balanceOfBatch wc bb
      = Inl (Error (''Failed to fetch batch balances: '' @ errorToString e))"
    if "map (resolveAddress wc) (bb_owners bb) = map Inr owners"
      and "read wc \<lparr>rq_address = bb_tokenAddress bb, rq_functionName = ''balanceOfBatch'',
                  rq_args = [ArgArray (map ArgString owners),
                             ArgArray (map ArgNumber (bb_ids bb))]\<rparr> = Inl e"
    using that by (simp add: balanceOfBatch_def promiseAll_map_Inr)
  show ?thesis
    apply (intro conjI impI)
    apply (simp_all add: safeTransferFrom_def safeBatchTransferFrom_def setApprovalForAll_def
        balanceOf_def isApprovedForAll_def errorToString_embeds rethrown_not_raw bb2
        getTokenInfoBySymbolWith_def)
    apply (rule balanceOfBatch_resolve_fails [simplified])
    apply simp
    done
qed

text \<open>The scenario of the spec: \<open>sendTransaction\<close> throws inside \<open>safeTransferFrom\<close>.\<close>

theorem wallet_failures_rethrown_witness:
  "safeTransferFrom failingSendWallet transferOfGold
     = Inl (Error ''Failed to transfer: RpcError: connection refused'')
   \<and> (\<exists>pre. ''Failed to transfer: RpcError: connection refused'' = pre @ err_message rpcError)"
proof -
  have h: "resolveAddress failingSendWallet (st_from transferOfGold) = Inr ''0xBBB''
      \<and> resolveAddress failingSendWallet (st_to transferOfGold) = Inr ''0xDDD''
      \<and> sendTransaction failingSendWallet
           \<lparr>tx_to = st_tokenAddress transferOfGold, tx_functionName = ''safeTransferFrom'',
            tx_args = [ArgString ''0xBBB'', ArgString ''0xDDD'', ArgNumber (st_id transferOfGold),
                       ArgNumber (st_value transferOfGold),
                       ArgString (dataOrDefault (st_data transferOfGold))]\<rparr> = Inl rpcError"
    by (simp add: failingSendWallet_def chainOneWallet_def transferOfGold_def)
  from wallet_failures_rethrown
    [of failingSendWallet transferOfGold "''0xBBB''" "''0xDDD''" rpcError] h
  have "safeTransferFrom failingSendWallet transferOfGold
      = Inl (Error (''Failed to transfer: '' @ errorToString rpcError))"
    by blast
  then show ?thesis by (simp add: errorToString_def rpcError_def)
qed

subsection \<open>The registry is read-only\<close>


lemma constructorOp_default:
  "heldTokens (snd (constructorOp None h)) (fst (constructorOp None h)) = []"
  by (simp add: constructorOp_def bindOp_def returnOp_def allocObject_def allocArray_def
      assignTokensField_def heldTokens_def)

text \<open>
  What a mutation is in this heap: a \<open>push\<close> on the array a service refers to changes
  the list the service holds, and so does an assignment to its field.
\<close>

lemma pushToken_changes_held:
  assumes "tokensField h this = Some r" and "arrays h r = Some ts"
  shows "heldTokens (snd (pushToken r t h)) this = ts @ [t]"
  using assms by (simp add: pushToken_def heldTokens_def)

lemma assignTokensField_changes_held:
  assumes "arrays h r = Some ts"
  shows "heldTokens (snd (assignTokensField this r h)) this = ts"
  using assms by (simp add: assignTokensField_def heldTokens_def)

text \<open>The lookup on the service object is the lookup on the list it holds.\<close>

lemma getTokenInfoBySymbolOp_result:
  "fst (getTokenInfoBySymbolOp this wc p h)
     = getTokenInfoBySymbol \<lparr>tokens = heldTokens h this\<rparr> wc p"
  by (simp add: getTokenInfoBySymbolOp_def bindOp_def returnOp_def readTokensField_def)



subsection \<open>Several matches\<close>

text \<open>
  C10. When the descriptor \<open>t\<close> matches the query and no descriptor before it in the
  list does, the scan finds \<open>t\<close>, and the lookup gives what it gives on the registry of
  \<open>t\<close> alone: the descriptors after \<open>t\<close>, matching or not, have no part in the
  result. With a non-empty address of \<open>t\<close> for the wallet client's chain, the record
  returned is that of \<open>t\<close>.
\<close>

theorem lookup_first_match:
  assumes "tokens svc = pre @ t # post"
      and "\<forall>u\<in>set pre. \<not> symbolMatches lc (gt_symbol p) u"
      and "symbolMatches lc (gt_symbol p) t"
  shows "find (symbolMatches lc (gt_symbol p)) (tokens svc) = Some t
       \<and> getTokenInfoBySymbolWith lc svc wc p
           = getTokenInfoBySymbolWith lc \<lparr>tokens = [t]\<rparr> wc p
       \<and> (getChain wc = Inr c \<and> tk_chains t (chain_id c) = Some entry
            \<and> contractAddress entry \<noteq> []
          \<longrightarrow> getTokenInfoBySymbolWith lc svc wc p
                = Inr \<lparr>ti_symbol = tk_symbol t, ti_contractAddress = contractAddress entry,
                        ti_id = tk_id t, ti_decimals = tk_decimals t, ti_name = tk_name t,
                        ti_uri = tk_uri t, ti_totalSupply = tk_totalSupply t\<rparr>)"
proof -
  have f: "find (symbolMatches lc (gt_symbol p)) (tokens svc) = Some t"
    unfolding assms(1) using assms(2,3) by (rule find_first_match)
  moreover have "find (symbolMatches lc (gt_symbol p)) (tokens \<lparr>tokens = [t]\<rparr>) = Some t"
    using assms(3) by simp
  ultimately have same: "getTokenInfoBySymbolWith lc svc wc p
      = getTokenInfoBySymbolWith lc \<lparr>tokens = [t]\<rparr> wc p"
    by (simp add: getTokenInfoBySymbolWith_def)
  have "getTokenInfoBySymbolWith lc svc wc p
      = Inr \<lparr>ti_symbol = tk_symbol t, ti_contractAddress = contractAddress entry,
              ti_id = tk_id t, ti_decimals = tk_decimals t, ti_name = tk_name t,
              ti_uri = tk_uri t, ti_totalSupply = tk_totalSupply t\<rparr>"
    if "getChain wc = Inr c \<and> tk_chains t (chain_id c) = Some entry \<and> contractAddress entry \<noteq> []"
    using lookup_found [OF f, of wc c] that by (simp add: chainContractAddress_def)
  with f same show ?thesis by blast
qed

theorem lookup_first_match_witness:
  "find (symbolMatches toLowerCase ''GOLD'') [lowerGoldToken, goldToken, otherGoldToken]
     = Some goldToken
   \<and> getTokenInfoBySymbolWith toLowerCase
        \<lparr>tokens = [lowerGoldToken, goldToken, otherGoldToken]\<rparr> chainOneWallet
        \<lparr>gt_symbol = ''GOLD''\<rparr>
       = Inr \<lparr>ti_symbol = ''GOLD'', ti_contractAddress = ''0xAAA'', ti_id = 1,
               ti_decimals = 0, ti_name = ''Gold'', ti_uri = ''ipfs://gold'',
               ti_totalSupply = 1000\<rparr>"
proof -
  have a: "tokens \<lparr>tokens = [lowerGoldToken, goldToken, otherGoldToken]\<rparr>
      = [lowerGoldToken] @ goldToken # [otherGoldToken]"
    by simp
  have b: "\<forall>u\<in>set [lowerGoldToken].
      \<not> symbolMatches toLowerCase (gt_symbol \<lparr>gt_symbol = ''GOLD''\<rparr>) u"
    by (simp add: symbolMatches_def lowerGoldToken_def toLowerCase_def toLowerCaseChar_def)
  have c: "symbolMatches toLowerCase (gt_symbol \<lparr>gt_symbol = ''GOLD''\<rparr>) goldToken"
    by (simp add: symbolMatches_def goldToken_def)
  have alone: "getTokenInfoBySymbolWith toLowerCase \<lparr>tokens = [goldToken]\<rparr> chainOneWallet
        \<lparr>gt_symbol = ''GOLD''\<rparr>
       = Inr \<lparr>ti_symbol = ''GOLD'', ti_contractAddress = ''0xAAA'', ti_id = 1,
               ti_decimals = 0, ti_name = ''Gold'', ti_uri = ''ipfs://gold'',
               ti_totalSupply = 1000\<rparr>"
    by (simp add: getTokenInfoBySymbolWith_def symbolMatches_def goldToken_def
        chainOneWallet_def chainContractAddress_def)
  from lookup_first_match [OF a b c, of chainOneWallet] alone show ?thesis by simp
qed

end
